theory Spec2Isabelle
  imports Complex_Main
begin

section \<open>Python primitives used by the scripts\<close>

text \<open>
  Numbers. The scripts compute with Python floats and integers. Floats are modelled by
  the reals: rounding, infinities and NaN values inside a series are outside the model.
  Integers are unbounded, as in Python. An exception is a value of \<open>py_error\<close> on the
  left of a sum.
\<close>

datatype py_error = ZeroDivisionError | IndexError | KeyError | ValueError

definition py_truediv :: "real \<Rightarrow> real \<Rightarrow> py_error + real" where
  \<comment> \<open>\<^verbatim>\<open>a / b\<close>\<close>
  "py_truediv a b = (if b = 0 then Inl ZeroDivisionError else Inr (a / b))"

definition py_int :: "real \<Rightarrow> int" where
  \<comment> \<open>\<^verbatim>\<open>int(v)\<close> of a float: the fractional part is dropped\<close>
  "py_int v = (if v < 0 then \<lceil>v\<rceil> else \<lfloor>v\<rfloor>)"

text \<open>
  \<^verbatim>\<open>str(n)\<close> of a non-negative integer: its decimal digits, most significant first.
\<close>

definition digit_char :: "nat \<Rightarrow> char" where
  "digit_char d = ''0123456789'' ! d"

fun dec_digits :: "nat \<Rightarrow> string" where
  "dec_digits n =
     (if n < 10 then [digit_char n] else dec_digits (n div 10) @ [digit_char (n mod 10)])"

declare dec_digits.simps [simp del]

text \<open>
  The format specification \<^verbatim>\<open>{n:,}\<close> of an integer: a minus sign when \<open>n\<close> is negative,
  then the decimal digits with a comma before every complete group of three digits,
  counted from the right. \<open>group3\<close> works on the digits least significant first.
\<close>

fun group3 :: "string \<Rightarrow> string" where
  "group3 (a # b # c # d # ds) = a # b # c # CHR '','' # group3 (d # ds)"
| "group3 ds = ds"

definition group_thousands :: "nat \<Rightarrow> string" where
  "group_thousands n = rev (group3 (rev (dec_digits n)))"

definition py_format_comma :: "int \<Rightarrow> string" where
  "py_format_comma n = (if n < 0 then ''-'' else []) @ group_thousands (nat \<bar>n\<bar>)"

section \<open>viz.py: helper functions\<close>

text \<open>
  \<^verbatim>\<open>
  def fmtd(val) -> str:
      return f"${int(val):,}"

  def fmtd_signed(val) -> str:
      sign = "-" if val < 0 else ""
      return f"{sign}${abs(int(val)):,}"
  \<close>
\<close>

definition fmtd :: "real \<Rightarrow> string" where
  "fmtd val = ''$'' @ py_format_comma (py_int val)"

definition fmtd_signed :: "real \<Rightarrow> string" where
  "fmtd_signed val =
     (let sign = (if val < 0 then ''-'' else [])
      in sign @ ''$'' @ py_format_comma \<bar>py_int val\<bar>)"

text \<open>
  \<^verbatim>\<open>
  def back_calc_previous(current: float, pct_change: float) -> float:
      denom = 1 + pct_change / 100.0
      return current / denom if denom else current
  \<close>
\<close>

definition back_calc_previous :: "real \<Rightarrow> real \<Rightarrow> py_error + real" where
  "back_calc_previous current pct_change =
     (case py_truediv pct_change 100 of
        Inl e \<Rightarrow> Inl e
      | Inr q \<Rightarrow>
          (let denom = 1 + q
           in if denom \<noteq> 0 then py_truediv current denom else Inr current))"

section \<open>viz.py: KPI donut\<close>

text \<open>
  \<open>make_kpi_donut\<close> returns a figure. The model keeps what the function computes and
  hands to the pie trace, the annotation and the title: the slice labels and values, the
  hover strings, the centre text and the title text. Sizes, colours and margins are
  constants of the layout and are left out. The parameter \<open>pct_change\<close> is not read by
  the function.
  \<^verbatim>\<open>
      remainder = abs(prev - current)
      if remainder == 0:
          remainder = max(current * 0.05, 1)
      delta_val = current - prev
      verb = "reduction" if delta_val < 0 else "increase"
      hover_text = [
          f"{fmtd(current)} current",
          f"{fmtd_signed(delta_val)}<br>{verb} vs<br>last month"
      ]
      pie_trace = go.Pie(labels=["Current", "Delta"], values=[current, remainder], ...)
  \<close>
\<close>

record donut_fig =
  pie_labels :: "string list"
  pie_values :: "real list"
  pie_customdata :: "string list"
  annotation_text :: string
  title_text :: string

definition make_kpi_donut :: "string \<Rightarrow> real \<Rightarrow> real \<Rightarrow> real \<Rightarrow> donut_fig" where
  "make_kpi_donut title current pct_change prev =
     (let remainder = \<bar>prev - current\<bar>;
          remainder = (if remainder = 0 then max (current * 0.05) 1 else remainder);
          delta_val = current - prev;
          verb = (if delta_val < 0 then ''reduction'' else ''increase'');
          hover_text =
            [fmtd current @ '' current'',
             fmtd_signed delta_val @ ''<br>'' @ verb @ '' vs<br>last month'']
      in \<lparr> pie_labels = [''Current'', ''Delta''],
           pie_values = [current, remainder],
           pie_customdata = hover_text,
           annotation_text = ''<b>'' @ fmtd current @ ''</b>'',
           title_text = ''<b>'' @ title @ ''</b>'' \<rparr>)"

section \<open>Series, ranges and labels\<close>

text \<open>
  \<^verbatim>\<open>range(start, stop, step)\<close> for a positive step, the only kind the scripts use (the
  steps are the constants 10000 and 5000).
\<close>

function py_range :: "int \<Rightarrow> int \<Rightarrow> int \<Rightarrow> int list" where
  "py_range start stop step =
     (if 0 < step \<and> start < stop then start # py_range (start + step) stop step else [])"
  by pat_completeness auto
termination
  by (relation "measure (\<lambda>(start, stop, step). nat (stop - start))") auto

declare py_range.simps [simp del]

text \<open>
  A column of numbers is a list of reals. \<^verbatim>\<open>Series.max()\<close> of an empty column is NaN,
  written \<open>None\<close>; a number that may be NaN is a \<open>real option\<close>. Comparisons with NaN are
  false, and the built-in \<^verbatim>\<open>max(a, b, c)\<close> keeps its first argument unless a later one
  compares greater. \<^verbatim>\<open>int\<close> of NaN raises \<^verbatim>\<open>ValueError\<close>.
\<close>

fun series_max :: "real list \<Rightarrow> real option" where
  "series_max [] = None"
| "series_max (x # xs) = Some (fold max xs x)"

fun py_gt :: "real option \<Rightarrow> real option \<Rightarrow> bool" where
  "py_gt (Some a) (Some b) = (a > b)"
| "py_gt _ _ = False"

definition py_max3 :: "real option \<Rightarrow> real option \<Rightarrow> real option \<Rightarrow> real option" where
  "py_max3 a b c =
     (let m = a;
          m = (if py_gt b m then b else m);
          m = (if py_gt c m then c else m)
      in m)"

definition np_ceil :: "real \<Rightarrow> real" where
  "np_ceil x = of_int \<lceil>x\<rceil>"

definition py_last :: "'a list \<Rightarrow> py_error + 'a" where
  \<comment> \<open>\<^verbatim>\<open>xs[-1]\<close> and \<^verbatim>\<open>.iloc[-1]\<close>\<close>
  "py_last xs = (if xs = [] then Inl IndexError else Inr (last xs))"

text \<open>
  \<^verbatim>\<open>m.split()[0]\<close>: the first word of a label, \<^verbatim>\<open>IndexError\<close> when the label has no
  word. Labels are taken to be ASCII, where the whitespace characters are the codes
  9 to 13 and 28 to 32.
\<close>

definition py_isspace :: "char \<Rightarrow> bool" where
  "py_isspace c = (let n = (of_char c :: nat) in (9 \<le> n \<and> n \<le> 13) \<or> (28 \<le> n \<and> n \<le> 32))"

definition py_split_first :: "string \<Rightarrow> py_error + string" where
  "py_split_first m =
     (case dropWhile py_isspace m of
        [] \<Rightarrow> Inl IndexError
      | w \<Rightarrow> Inr (takeWhile (\<lambda>c. \<not> py_isspace c) w))"

fun short_labels :: "string list \<Rightarrow> py_error + string list" where
  \<comment> \<open>\<^verbatim>\<open>[m.split()[0] for m in months]\<close>\<close>
  "short_labels [] = Inr []"
| "short_labels (m # ms) =
     (case py_split_first m of
        Inl e \<Rightarrow> Inl e
      | Inr w \<Rightarrow> (case short_labels ms of Inl e \<Rightarrow> Inl e | Inr ws \<Rightarrow> Inr (w # ws)))"

record yaxis =
  axis_range :: "int \<times> int"
  axis_tickvals :: "int list"

section \<open>viz.py: monthly stacked bars\<close>

text \<open>
  The monthly table has the columns MonthYear, Department and Savings; a row is a triple.
  The model of \<open>make_monthly_stacked\<close> keeps the derivation of the y axis; the bar traces
  and the layout constants are left out.
  \<^verbatim>\<open>
      df["MonthYear"] = pd.Categorical(df["MonthYear"], categories=order, ordered=True)
      ...
      monthly_totals = df.groupby("MonthYear", observed=True)["Savings"].sum()
      ymax = int(np.ceil(monthly_totals.max() / 10000.0) * 10000)
      ymax = max(ymax, 60000)
      tickvals = list(range(0, ymax + 1, 10000))
      fig.update_yaxes(range=[0, ymax], tickvals=tickvals, ...)
  \<close>
  A month that is not in \<open>month_order\<close> becomes a missing category and its rows are in no
  group; with \<^verbatim>\<open>observed=True\<close> a month of \<open>month_order\<close> with no row has no group either.
\<close>

type_synonym monthly_row = "string \<times> string \<times> real"

definition month_order :: "string list" where
  "month_order =
     [''Mar 2022'', ''Apr 2022'', ''May 2022'', ''Jun 2022'', ''Jul 2022'',
      ''Aug 2022'', ''Sep 2022'', ''Oct 2022'', ''Nov 2022'', ''Dec 2022'',
      ''Jan 2023'', ''Feb 2023'', ''Mar 2023'']"

definition monthly_totals :: "monthly_row list \<Rightarrow> real list" where
  "monthly_totals df =
     map (\<lambda>m. sum_list (map (\<lambda>(my, dept, s). s) (filter (\<lambda>(my, dept, s). my = m) df)))
       (filter (\<lambda>m. m \<in> set (map fst df)) month_order)"

definition stacked_axis :: "real list \<Rightarrow> py_error + yaxis" where
  \<comment> \<open>lines 196 to 198 and the axis update, from the totals of line 195\<close>
  "stacked_axis totals =
     (case series_max totals of
        None \<Rightarrow> Inl ValueError
      | Some m \<Rightarrow>
          (let ymax = py_int (np_ceil (m / 10000) * 10000);
               ymax = max ymax 60000;
               tickvals = py_range 0 (ymax + 1) 10000
           in Inr \<lparr> axis_range = (0, ymax), axis_tickvals = tickvals \<rparr>))"

definition make_monthly_stacked :: "monthly_row list \<Rightarrow> py_error + yaxis" where
  "make_monthly_stacked monthly_df = stacked_axis (monthly_totals monthly_df)"

section \<open>viz.py: ROI and forecast\<close>

text \<open>
  The ROI table has the columns Month and Procurement ROI, the forecast table Month and
  Forecast; a row is a pair. The model of \<open>make_roi_forecast\<close> keeps the short x labels,
  the forecast trace and the y axis.
  \<^verbatim>\<open>
      actual_months = roi_df["Month"].tolist()
      forecast_months = fcst_df["Month"].tolist()
      all_months = actual_months + forecast_months
      short = [m.split()[0] for m in all_months]

      last_roi_month = actual_months[-1]
      last_roi_value = roi_df["Procurement ROI"].iloc[-1]
      fcst_x = [last_roi_month] + forecast_months
      fcst_y = [last_roi_value] + fcst_df["Forecast"].tolist()
      ...
      data_max = max(roi_df["Procurement ROI"].max(), fcst_df["Forecast"].max(), last_roi_value)
      ymax = 40000 if data_max <= 40000 else int(np.ceil(data_max / 5000.0) * 5000)
      ymin = 10000
      tickvals = list(range(ymin, ymax + 1, 5000))
  \<close>
\<close>

type_synonym series_row = "string \<times> real"

definition forecast_join ::
  "series_row list \<Rightarrow> series_row list \<Rightarrow> py_error + (string list \<times> real list)" where
  \<comment> \<open>lines 272 to 275: the x and y lists of the forecast trace\<close>
  "forecast_join roi_df fcst_df =
     (case py_last (map fst roi_df) of
        Inl e \<Rightarrow> Inl e
      | Inr last_roi_month \<Rightarrow>
          (case py_last (map snd roi_df) of
             Inl e \<Rightarrow> Inl e
           | Inr last_roi_value \<Rightarrow>
               (let fcst_x = [last_roi_month] @ map fst fcst_df;
                    fcst_y = [last_roi_value] @ map snd fcst_df
                in Inr (fcst_x, fcst_y))))"

definition roi_axis :: "real list \<Rightarrow> real list \<Rightarrow> real \<Rightarrow> py_error + yaxis" where
  \<comment> \<open>lines 307 to 310 and the axis update\<close>
  "roi_axis roi_vals fcst_vals last_roi_value =
     (let data_max = py_max3 (series_max roi_vals) (series_max fcst_vals)
                       (Some last_roi_value)
      in case data_max of
           None \<Rightarrow> Inl ValueError
         | Some d \<Rightarrow>
             (let ymax = (if d \<le> 40000 then 40000 else py_int (np_ceil (d / 5000) * 5000));
                  ymin = 10000;
                  tickvals = py_range ymin (ymax + 1) 5000
              in Inr \<lparr> axis_range = (ymin, ymax), axis_tickvals = tickvals \<rparr>))"

record roi_fig =
  x_ticktext :: "string list"
  fcst_trace :: "string list \<times> real list"
  roi_yaxis :: yaxis

definition make_roi_forecast :: "series_row list \<Rightarrow> series_row list \<Rightarrow> py_error + roi_fig" where
  "make_roi_forecast roi_df fcst_df =
     (let actual_months = map fst roi_df;
          forecast_months = map fst fcst_df;
          all_months = actual_months @ forecast_months
      in case short_labels all_months of
           Inl e \<Rightarrow> Inl e
         | Inr short \<Rightarrow>
             (case forecast_join roi_df fcst_df of
                Inl e \<Rightarrow> Inl e
              | Inr fcst \<Rightarrow>
                  (case roi_axis (map snd roi_df) (map snd fcst_df) (last (map snd roi_df)) of
                     Inl e \<Rightarrow> Inl e
                   | Inr ax \<Rightarrow>
                       Inr \<lparr> x_ticktext = short, fcst_trace = fcst, roi_yaxis = ax \<rparr>)))"

section \<open>data_gen.py\<close>

text \<open>
  \<open>main\<close> seeds numpy's global generator, builds five constant tables and writes each to
  a file of the data directory, then prints a summary. The state it acts on is the
  generator's seed, the files of the data directory by name, and the printed lines.
  \<^verbatim>\<open>np.random.seed\<close> accepts an integer from 0 to \<open>2^32 - 1\<close> and raises \<^verbatim>\<open>ValueError\<close> for
  any other; it is the first statement of \<open>main\<close>, before the directory is created.
\<close>

datatype py_num = PyInt int | PyFloat real

datatype file_content =
    KpiJson "(string \<times> py_num) list"
  | DeptCsv "(string \<times> int) list"
  | MonthlyCsv "(string \<times> string \<times> int) list"
  | SeriesCsv "(string \<times> int) list"

record world =
  np_random_state :: "int option"
  files :: "string \<rightharpoonup> file_content"
  stdout :: "string list"

definition np_random_seed :: "int \<Rightarrow> world \<Rightarrow> py_error + world" where
  "np_random_seed seed w =
     (if seed < 0 \<or> 2 ^ 32 - 1 < seed then Inl ValueError
      else Inr (w\<lparr>np_random_state := Some seed\<rparr>))"

definition write_file :: "string \<Rightarrow> file_content \<Rightarrow> world \<Rightarrow> world" where
  \<comment> \<open>\<^verbatim>\<open>json.dump\<close> and \<^verbatim>\<open>to_csv\<close>: the file is replaced as a whole\<close>
  "write_file name content w = w\<lparr>files := (files w)(name \<mapsto> content)\<rparr>"

definition py_getitem :: "('k \<times> 'v) list \<Rightarrow> 'k \<Rightarrow> py_error + 'v" where
  \<comment> \<open>\<^verbatim>\<open>d[k]\<close> on a dict, kept as the list of its items in insertion order\<close>
  "py_getitem d k = (case map_of d k of None \<Rightarrow> Inl KeyError | Some v \<Rightarrow> Inr v)"

definition kpis :: "(string \<times> py_num) list" where
  "kpis =
     [(''cost_of_material'', PyInt 10556),
      (''pct_change_material'', PyFloat (- 54.90)),
      (''cost_of_avoidance'', PyInt 6279),
      (''pct_change_avoidance'', PyFloat (- 54.42)),
      (''savings'', PyInt 16976),
      (''pct_change_savings'', PyFloat (- 55.50))]"

definition savings_df :: "(string \<times> int) list" where
  "savings_df =
     zip [''Transmissions'', ''Sensors'', ''Other'', ''Machine'', ''Forklift'', ''Batteries'']
         [97465, 84101, 90986, 88876, 85327, 102533]"

definition dept_order :: "string list" where
  "dept_order =
     [''Transmissions'', ''Sensors'', ''Other'', ''Machine'', ''Forklift'', ''Batteries'']"

definition monthly_data :: "(string \<times> (string \<times> int) list) list" where
  "monthly_data =
     [(''Mar 2022'', [(''Transmissions'', 1902), (''Sensors'', 2975), (''Other'', 3468),
                      (''Machine'', 6205), (''Forklift'', 4406), (''Batteries'', 1405)]),
      (''Apr 2022'', [(''Transmissions'', 6261), (''Sensors'', 10495), (''Other'', 4046),
                      (''Machine'', 6284), (''Forklift'', 6446), (''Batteries'', 5231)]),
      (''May 2022'', [(''Transmissions'', 13257), (''Sensors'', 2827), (''Other'', 10726),
                      (''Machine'', 6753), (''Forklift'', 7032), (''Batteries'', 10240)]),
      (''Jun 2022'', [(''Transmissions'', 4383), (''Sensors'', 5990), (''Other'', 8505),
                      (''Machine'', 8041), (''Forklift'', 8872), (''Batteries'', 10572)]),
      (''Jul 2022'', [(''Transmissions'', 11684), (''Sensors'', 11022), (''Other'', 7536),
                      (''Machine'', 8935), (''Forklift'', 5728), (''Batteries'', 11509)]),
      (''Aug 2022'', [(''Transmissions'', 7680), (''Sensors'', 8429), (''Other'', 6317),
                      (''Machine'', 6491), (''Forklift'', 4994), (''Batteries'', 7167)]),
      (''Sep 2022'', [(''Transmissions'', 9415), (''Sensors'', 5890), (''Other'', 8829),
                      (''Machine'', 9450), (''Forklift'', 7755), (''Batteries'', 6492)]),
      (''Oct 2022'', [(''Transmissions'', 5858), (''Sensors'', 12772), (''Other'', 7769),
                      (''Machine'', 6415), (''Forklift'', 7677), (''Batteries'', 13641)]),
      (''Nov 2022'', [(''Transmissions'', 11993), (''Sensors'', 5290), (''Other'', 9131),
                      (''Machine'', 6481), (''Forklift'', 4274), (''Batteries'', 9542)]),
      (''Dec 2022'', [(''Transmissions'', 2829), (''Sensors'', 5479), (''Other'', 5896),
                      (''Machine'', 6085), (''Forklift'', 9988), (''Batteries'', 10750)]),
      (''Jan 2023'', [(''Transmissions'', 11413), (''Sensors'', 3471), (''Other'', 8423),
                      (''Machine'', 9068), (''Forklift'', 8813), (''Batteries'', 7026)]),
      (''Feb 2023'', [(''Transmissions'', 8750), (''Sensors'', 7140), (''Other'', 3964),
                      (''Machine'', 4200), (''Forklift'', 7050), (''Batteries'', 7495)]),
      (''Mar 2023'', [(''Transmissions'', 2040), (''Sensors'', 2321), (''Other'', 6376),
                      (''Machine'', 4468), (''Forklift'', 2292), (''Batteries'', 1463)])]"

text \<open>
  \<^verbatim>\<open>
      records = []
      for month_year, depts in monthly_data.items():
          for dept in dept_order:
              records.append({"MonthYear": month_year, "Department": dept,
                              "Savings": depts[dept]})
  \<close>
\<close>

fun dept_records ::
  "string \<Rightarrow> (string \<times> int) list \<Rightarrow> string list \<Rightarrow> py_error + (string \<times> string \<times> int) list"
where
  "dept_records month_year depts [] = Inr []"
| "dept_records month_year depts (dept # ds) =
     (case py_getitem depts dept of
        Inl e \<Rightarrow> Inl e
      | Inr v \<Rightarrow>
          (case dept_records month_year depts ds of
             Inl e \<Rightarrow> Inl e
           | Inr rs \<Rightarrow> Inr ((month_year, dept, v) # rs)))"

fun month_records ::
  "(string \<times> (string \<times> int) list) list \<Rightarrow> py_error + (string \<times> string \<times> int) list"
where
  "month_records [] = Inr []"
| "month_records ((month_year, depts) # rest) =
     (case dept_records month_year depts dept_order of
        Inl e \<Rightarrow> Inl e
      | Inr rs \<Rightarrow>
          (case month_records rest of Inl e \<Rightarrow> Inl e | Inr rs' \<Rightarrow> Inr (rs @ rs')))"

definition roi_months :: "string list" where
  "roi_months =
     [''Mar 2022'', ''Apr 2022'', ''May 2022'', ''Jun 2022'', ''Jul 2022'',
      ''Aug 2022'', ''Sep 2022'', ''Oct 2022'', ''Nov 2022'', ''Dec 2022'',
      ''Jan 2023'', ''Feb 2023'', ''Mar 2023'']"

definition roi_values :: "int list" where
  "roi_values =
     [15100, 25000, 35000, 28000, 36000,
      25300, 29000, 37000, 29000, 28500,
      28700, 24800, 12000]"

definition forecast_months :: "string list" where
  "forecast_months =
     [''Apr 2023'', ''May 2023'', ''Jun 2023'', ''Jul 2023'', ''Aug 2023'', ''Sep 2023'']"

definition forecast_values :: "int list" where
  "forecast_values = [21000, 22000, 18800, 23000, 16000, 13500]"

definition summary_lines :: "string list" where
  "summary_lines =
     [''Data generation complete. Files saved in 'data/' directory:'',
      ''- procurement_kpis.json'',
      ''- savings_by_department.csv'',
      ''- monthly_savings_by_department.csv'',
      ''- procurement_roi.csv'',
      ''- procurement_forecast.csv'']"

definition main :: "int \<Rightarrow> world \<Rightarrow> py_error + world" where
  "main seed w0 =
     (case np_random_seed seed w0 of
        Inl e \<Rightarrow> Inl e
      | Inr w1 \<Rightarrow>
          (let w2 = write_file ''procurement_kpis.json'' (KpiJson kpis) w1;
               w3 = write_file ''savings_by_department.csv'' (DeptCsv savings_df) w2
           in case month_records monthly_data of
                Inl e \<Rightarrow> Inl e
              | Inr records \<Rightarrow>
                  (let w4 = write_file ''monthly_savings_by_department.csv''
                              (MonthlyCsv records) w3;
                       roi_df = zip roi_months roi_values;
                       w5 = write_file ''procurement_roi.csv'' (SeriesCsv roi_df) w4;
                       forecast_df = zip forecast_months forecast_values;
                       w6 = write_file ''procurement_forecast.csv'' (SeriesCsv forecast_df) w5
                   in Inr (w6\<lparr>stdout := stdout w6 @ summary_lines\<rparr>))))"

section \<open>Properties\<close>

text \<open>
  C1. For every \<open>current\<close> and every \<open>pct_change\<close> other than \<open>-100\<close>,
  \<open>back_calc_previous\<close> returns \<open>current / (1 + pct_change / 100)\<close>. At
  \<open>pct_change = -100\<close>, which is exactly where \<open>1 + pct_change / 100\<close> is zero, it returns
  \<open>current\<close> unchanged. No input makes it raise a division error.
\<close>

theorem back_calc_previous_spec:
  "(pct_change \<noteq> - 100 \<longrightarrow>
      back_calc_previous current pct_change = Inr (current / (1 + pct_change / 100)))
   \<and> (pct_change = - 100 \<longrightarrow> back_calc_previous current pct_change = Inr current)
   \<and> (1 + pct_change / 100 = 0 \<longleftrightarrow> pct_change = - 100)
   \<and> (\<forall>e. back_calc_previous current pct_change \<noteq> Inl e)"
proof -
  have z: "1 + pct_change / 100 = 0 \<longleftrightarrow> pct_change = - 100"
    by (simp add: field_simps) linarith
  show ?thesis
    unfolding back_calc_previous_def py_truediv_def Let_def
    using z by auto
qed

theorem back_calc_previous_spec_witness:
  "back_calc_previous 100 (- 50) = Inr 200 \<and> back_calc_previous 37 (- 100) = Inr 37"
  using back_calc_previous_spec [of "- 50" 100] back_calc_previous_spec [of "- 100" 37]
  by simp

subsection \<open>Currency formatting\<close>


lemma py_int_toward_zero:
  "\<bar>of_int (py_int v)\<bar> \<le> \<bar>v\<bar> \<and> \<bar>v - of_int (py_int v)\<bar> < 1"
proof (cases "v < 0")
  case True
  then have py: "py_int v = \<lceil>v\<rceil>" by (simp add: py_int_def)
  have a: "v \<le> of_int \<lceil>v\<rceil>" "of_int \<lceil>v\<rceil> < v + 1" by linarith+
  have "\<lceil>v\<rceil> \<le> 0" using True by (simp add: ceiling_le_iff)
  then have "of_int \<lceil>v\<rceil> \<le> (0::real)" by simp
  with a True show ?thesis unfolding py by linarith
next
  case False
  then have py: "py_int v = \<lfloor>v\<rfloor>" by (simp add: py_int_def)
  have a: "of_int \<lfloor>v\<rfloor> \<le> v" "v < of_int \<lfloor>v\<rfloor> + 1" by linarith+
  have "0 \<le> \<lfloor>v\<rfloor>" using False by simp
  then have "(0::real) \<le> of_int \<lfloor>v\<rfloor>" by simp
  with a False show ?thesis unfolding py by linarith
qed

lemma py_int_small_negative: "- 1 < v \<Longrightarrow> v < 0 \<Longrightarrow> py_int v = 0"
  unfolding py_int_def by simp linarith

lemma digit_char_not_comma: "d < 10 \<Longrightarrow> digit_char d \<noteq> CHR '',''"
proof -
  assume "d < 10"
  then have "d \<in> {0, 1, 2, 3, 4, 5, 6, 7, 8, 9}" by auto
  then show ?thesis unfolding digit_char_def by auto
qed

lemma dec_digits_no_comma: "CHR '','' \<notin> set (dec_digits n)"
proof (induction n rule: dec_digits.induct)
  case (1 n)
  show ?case
  proof (cases "n < 10")
    case True
    then show ?thesis
      using digit_char_not_comma [of n] by (auto simp: dec_digits.simps [of n])
  next
    case False
    with 1 show ?thesis
      using digit_char_not_comma [of "n mod 10"] by (auto simp: dec_digits.simps [of n])
  qed
qed

lemma group3_drop_commas:
  "filter (\<lambda>c. c \<noteq> CHR '','') (group3 ds) = filter (\<lambda>c. c \<noteq> CHR '','') ds"
  by (induction ds rule: group3.induct) simp_all

lemma group_thousands_digits:
  "filter (\<lambda>c. c \<noteq> CHR '','') (group_thousands n) = dec_digits n"
proof -
  have "filter (\<lambda>c. c \<noteq> CHR '','') (group_thousands n)
        = rev (filter (\<lambda>c. c \<noteq> CHR '','') (rev (dec_digits n)))"
    unfolding group_thousands_def
    by (simp add: rev_filter [symmetric] group3_drop_commas)
  also have "\<dots> = filter (\<lambda>c. c \<noteq> CHR '','') (dec_digits n)"
    by (simp add: rev_filter [symmetric])
  also have "\<dots> = dec_digits n"
    using dec_digits_no_comma [of n] by (auto simp: filter_id_conv)
  finally show ?thesis .
qed




text \<open>
  C10. For every \<open>val\<close> strictly between \<open>-1\<close> and \<open>0\<close>, \<open>fmtd_signed val\<close> is \<open>-$0\<close>: the
  sign comes from the value before truncation, the magnitude from the value after it.
\<close>

theorem fmtd_signed_negative_zero:
  assumes "- 1 < val" and "val < 0"
  shows "fmtd_signed val = ''-$0''"
proof -
  have "py_int val = 0"
    using assms by (rule py_int_small_negative)
  moreover have "group_thousands 0 = ''0''" by code_simp
  ultimately show ?thesis
    using assms(2) by (simp add: fmtd_signed_def py_format_comma_def)
qed

theorem fmtd_signed_negative_zero_witness:
  "fmtd_signed (- 0.5) = ''-$0''"
  using fmtd_signed_negative_zero [of "- 0.5"] by simp

subsection \<open>Donut slices\<close>

lemma donut_values:
  "pie_values (make_kpi_donut title current pct_change prev)
   = [current, if \<bar>prev - current\<bar> = 0 then max (current * 0.05) 1 else \<bar>prev - current\<bar>]"
  unfolding make_kpi_donut_def Let_def by simp

text \<open>
  C6. For every \<open>current\<close> and \<open>prev\<close>, the second slice value of the donut (the remainder)
  is \<open>\<bar>prev - current\<bar>\<close>, except that when this is zero the remainder is
  \<open>max (current * 0.05) 1\<close>. For \<open>current = 100\<close> and \<open>prev = 100\<close> the remainder is 5,
  not 0.
\<close>

theorem donut_remainder:
  "pie_values (make_kpi_donut title current pct_change prev)
     = [current,
        if \<bar>prev - current\<bar> = 0 then max (current * 0.05) 1 else \<bar>prev - current\<bar>]
   \<and> pie_values (make_kpi_donut title 100 pct_change 100) = [100, 5]
   \<and> pie_values (make_kpi_donut title 100 pct_change 100) ! 1 \<noteq> 0"
  by (simp add: donut_values)

theorem donut_remainder_witness:
  "pie_values (make_kpi_donut ''Savings'' 16976 (- 55.5) 38000) = [16976, 21024]
   \<and> pie_values (make_kpi_donut ''Savings'' 100 0 100) = [100, 5]"
  using donut_remainder [of "''Savings''" 16976 "- 55.5" 38000]
    donut_remainder [of "''Savings''" 100 0 100]
  by simp

text \<open>
  C7, as stated, says that both slice values are strictly positive for every \<open>current\<close>
  and \<open>prev\<close>. The first slice is \<open>current\<close> itself, passed through unchecked: at
  \<open>current = 0\<close> and \<open>prev = 0\<close> the slices are 0 and 1.
\<close>

theorem donut_slices_not_always_positive:
  "\<not> (0 < pie_values (make_kpi_donut ''Savings'' 0 0 0) ! 0
      \<and> 0 < pie_values (make_kpi_donut ''Savings'' 0 0 0) ! 1)"
  by (simp add: donut_values)

text \<open>
  C7, amended. For every \<open>current\<close> and \<open>prev\<close>, the slice values are \<open>current\<close> and a
  remainder that is strictly positive; both slices are strictly positive exactly when
  \<open>current\<close> is.
\<close>

theorem donut_slices_positive_iff:
  "(\<exists>r. pie_values (make_kpi_donut title current pct_change prev) = [current, r] \<and> 0 < r)
   \<and> ((\<forall>v \<in> set (pie_values (make_kpi_donut title current pct_change prev)). 0 < v)
        \<longleftrightarrow> 0 < current)"
proof -
  let ?r = "if \<bar>prev - current\<bar> = 0 then max (current * 0.05) 1 else \<bar>prev - current\<bar>"
  have r: "0 < ?r" by auto
  have v: "pie_values (make_kpi_donut title current pct_change prev) = [current, ?r]"
    by (rule donut_values)
  show ?thesis
    unfolding v using r by auto
qed

theorem donut_slices_positive_iff_witness:
  "0 < pie_values (make_kpi_donut ''Savings'' 100 0 100) ! 0
   \<and> 0 < pie_values (make_kpi_donut ''Savings'' 100 0 100) ! 1
   \<and> \<not> 0 < pie_values (make_kpi_donut ''Savings'' (- 5) 0 3) ! 0"
proof -
  have "0 < pie_values (make_kpi_donut ''Savings'' 100 0 100) ! 0
        \<and> 0 < pie_values (make_kpi_donut ''Savings'' 100 0 100) ! 1"
    using donut_slices_positive_iff [of "''Savings''" 100 0 100] by auto
  moreover have "\<not> 0 < pie_values (make_kpi_donut ''Savings'' (- 5) 0 3) ! 0"
    using donut_slices_positive_iff [of "''Savings''" "- 5" 0 3] by auto
  ultimately show ?thesis by simp
qed

subsection \<open>Ranges and maxima\<close>

lemma py_range_steps:
  "0 < step \<Longrightarrow>
   py_range a (a + step * int n + 1) step = map (\<lambda>k. a + step * int k) [0..<Suc n]"
proof (induction n arbitrary: a)
  case 0
  then have "py_range (a + step) (a + 1) step = []"
    by (simp add: py_range.simps [of "a + step"])
  with 0 show ?case
    by (simp add: py_range.simps [of a])
next
  case (Suc n)
  have pos: "0 \<le> step * int n" using Suc.prems by simp
  have stop: "a + step * int (Suc n) + 1 = (a + step) + step * int n + 1"
    by (simp add: algebra_simps)
  have "py_range a (a + step * int (Suc n) + 1) step
        = a # py_range (a + step) ((a + step) + step * int n + 1) step"
  proof -
    have "step * int (Suc n) = step + step * int n" by (simp add: algebra_simps)
    with pos Suc.prems have "a < a + step * int (Suc n) + 1" by linarith
    with Suc.prems show ?thesis
      by (subst py_range.simps) (simp add: algebra_simps)
  qed
  also have "\<dots> = a # map (\<lambda>k. (a + step) + step * int k) [0..<Suc n]"
    using Suc.IH [OF Suc.prems, of "a + step"] by simp
  also have "map (\<lambda>k. (a + step) + step * int k) [0..<Suc n]
             = map (\<lambda>k. a + step * int k) (map Suc [0..<Suc n])"
    by (simp add: algebra_simps)
  also have "a # map (\<lambda>k. a + step * int k) (map Suc [0..<Suc n])
             = map (\<lambda>k. a + step * int k) [0..<Suc (Suc n)]"
    unfolding map_Suc_upt by (simp add: upt_conv_Cons del: upt_Suc)
  finally show ?case .
qed

lemma py_range_multiples:
  assumes "0 < step" and "a \<le> hi" and "step dvd hi - a"
  shows "py_range a (hi + 1) step
         = map (\<lambda>k. a + step * int k) [0..<Suc (nat ((hi - a) div step))]"
proof -
  define n where "n = nat ((hi - a) div step)"
  have "0 \<le> (hi - a) div step"
    using assms by (simp add: pos_imp_zdiv_nonneg_iff)
  then have "int n = (hi - a) div step" by (simp add: n_def)
  then have "step * int n = hi - a" using assms(3) by simp
  then have "hi + 1 = a + step * int n + 1" by simp
  then show ?thesis
    using py_range_steps [OF assms(1), of a n] by (simp add: n_def)
qed

lemma py_range_set:
  assumes "0 < step" and "a \<le> hi" and "step dvd hi - a"
  shows "set (py_range a (hi + 1) step) = {t. a \<le> t \<and> t \<le> hi \<and> step dvd t - a}"
proof -
  define n where "n = nat ((hi - a) div step)"
  have nn: "0 \<le> (hi - a) div step"
    using assms by (simp add: pos_imp_zdiv_nonneg_iff)
  have hi: "hi = a + step * int n"
    using assms(3) nn by (simp add: n_def)
  have eq: "py_range a (hi + 1) step = map (\<lambda>k. a + step * int k) [0..<Suc n]"
    using py_range_multiples [OF assms] by (simp add: n_def)
  show ?thesis
  proof (rule set_eqI, rule iffI)
    fix t assume "t \<in> set (py_range a (hi + 1) step)"
    then have "t \<in> (\<lambda>k. a + step * int k) ` {0..<Suc n}"
      unfolding eq by (simp only: set_map set_upt)
    then obtain k where k: "k \<le> n" "t = a + step * int k"
      by (auto simp: less_Suc_eq_le)
    have "step * int k \<le> step * int n"
      using k(1) assms(1) by (simp add: mult_left_mono)
    then show "t \<in> {t. a \<le> t \<and> t \<le> hi \<and> step dvd t - a}"
      using k assms(1) hi by simp
  next
    fix t assume "t \<in> {t. a \<le> t \<and> t \<le> hi \<and> step dvd t - a}"
    then have t: "a \<le> t" "t \<le> hi" "step dvd t - a" by auto
    then obtain q where q: "t - a = step * q" by (auto simp: dvd_def)
    have "0 \<le> step * q" using t(1) q by simp
    then have q0: "0 \<le> q" using assms(1) by (simp add: zero_le_mult_iff)
    have "step * q \<le> step * int n" using t(2) q hi by simp
    then have qn: "q \<le> int n" using assms(1) by simp
    have "t = a + step * int (nat q)" using q q0 by simp
    moreover have "nat q \<le> n" using qn q0 by simp
    ultimately have "t \<in> (\<lambda>k. a + step * int k) ` {0..<Suc n}"
      by (intro image_eqI [where x = "nat q"]) auto
    then show "t \<in> set (py_range a (hi + 1) step)"
      unfolding eq by (simp only: set_map set_upt)
  qed
qed

lemma py_range_increasing:
  assumes "0 < step" and "a \<le> hi" and "step dvd hi - a"
  shows "sorted_wrt (<) (py_range a (hi + 1) step)"
proof -
  have "sorted_wrt (<) (map (\<lambda>k. a + step * int k) [0..<Suc (nat ((hi - a) div step))])"
    unfolding sorted_wrt_map
    by (rule sorted_wrt_mono_rel [OF _ sorted_wrt_upt]) (use assms(1) in simp)
  then show ?thesis
    unfolding py_range_multiples [OF assms] .
qed

lemma py_int_of_int: "py_int (of_int k) = k"
  unfolding py_int_def by simp

lemma py_int_np_ceil: "py_int (np_ceil x * of_int c) = \<lceil>x\<rceil> * c"
proof -
  have "np_ceil x * of_int c = of_int (\<lceil>x\<rceil> * c)"
    unfolding np_ceil_def by simp
  then show ?thesis by (simp only: py_int_of_int)
qed

lemma series_max_Max: "xs \<noteq> [] \<Longrightarrow> series_max xs = Some (Max (set xs))"
proof (cases xs)
  case Nil
  assume "xs \<noteq> []"
  with Nil show ?thesis by simp
next
  case (Cons y ys)
  have "fold max ys y = Max (set (y # ys))"
    by (rule Max.set_eq_fold [symmetric])
  with Cons show ?thesis by (simp only: series_max.simps)
qed


subsection \<open>The y axis of the stacked bars\<close>

lemma stacked_axis_value:
  assumes "totals \<noteq> []"
  shows "stacked_axis totals
         = Inr \<lparr> axis_range = (0, max (\<lceil>Max (set totals) / 10000\<rceil> * 10000) 60000),
                 axis_tickvals =
                   py_range 0 (max (\<lceil>Max (set totals) / 10000\<rceil> * 10000) 60000 + 1) 10000 \<rparr>"
proof -
  have "py_int (np_ceil (Max (set totals) / 10000) * 10000)
        = \<lceil>Max (set totals) / 10000\<rceil> * 10000"
    using py_int_np_ceil [of "Max (set totals) / 10000" 10000] by simp
  then show ?thesis
    unfolding stacked_axis_def Let_def
    by (simp add: series_max_Max [OF assms])
qed

lemma stacked_ymax_facts:
  fixes c :: int
  defines "ymax \<equiv> max (c * 10000) 60000"
  shows "0 \<le> ymax" and "10000 dvd ymax - 0" and "60000 \<le> ymax"
  unfolding ymax_def by (auto simp: max_def)

lemma make_monthly_stacked_no_month:
  "monthly_totals df = [] \<Longrightarrow> make_monthly_stacked df = Inl ValueError"
  by (simp add: make_monthly_stacked_def stacked_axis_def)

lemma monthly_totals_example:
  "monthly_totals
     [(''Apr 2022'', ''Other'', 3000), (''Mar 2022'', ''Other'', 1200),
      (''Apr 2022'', ''Sensors'', 2000), (''Apr 2031'', ''Other'', 99000)]
   = [1200, 5000]"
  by (simp add: monthly_totals_def month_order_def)

lemma upt7: "[0..<7] = [0, 1, 2, 3, 4, 5, 6]"
  by code_simp

text \<open>
  C2. For every non-empty list of per-period totals, the y-axis maximum of the stacked
  bars is \<open>\<lceil>Max totals / 10000\<rceil> * 10000\<close> raised to at least 60000, and the tick values
  are exactly the multiples of 10000 from 0 to that maximum, in increasing order. A
  largest total of 5000 gives the maximum 60000. This is the axis \<open>make_monthly_stacked\<close>
  returns for every table with these totals.
\<close>

theorem stacked_axis_spec:
  assumes "totals \<noteq> []"
  shows "(let ymax = max (\<lceil>Max (set totals) / 10000\<rceil> * 10000) 60000;
              ticks = map (\<lambda>k. 10000 * int k) [0..<Suc (nat (ymax div 10000))];
              ax = \<lparr> axis_range = (0, ymax), axis_tickvals = ticks \<rparr>
          in stacked_axis totals = Inr ax
             \<and> set ticks = {t. 0 \<le> t \<and> t \<le> ymax \<and> 10000 dvd t}
             \<and> sorted_wrt (<) ticks
             \<and> 60000 \<le> ymax
             \<and> (Max (set totals) = 5000 \<longrightarrow> ymax = 60000)
             \<and> (\<forall>df. monthly_totals df = totals \<longrightarrow> make_monthly_stacked df = Inr ax))"
proof -
  define ymax where "ymax = max (\<lceil>Max (set totals) / 10000\<rceil> * 10000) 60000"
  define ticks where "ticks = map (\<lambda>k. 10000 * int k) [0..<Suc (nat (ymax div 10000))]"
  define ax where "ax = \<lparr> axis_range = (0, ymax), axis_tickvals = ticks \<rparr>"
  note f = stacked_ymax_facts [of "\<lceil>Max (set totals) / 10000\<rceil>", folded ymax_def]
  have r: "py_range 0 (ymax + 1) 10000 = ticks"
    using py_range_multiples [OF _ f(1) f(2)] by (simp add: ticks_def)
  have a: "stacked_axis totals = Inr ax"
    using stacked_axis_value [OF assms] r by (simp add: ymax_def ax_def)
  have b: "set ticks = {t. 0 \<le> t \<and> t \<le> ymax \<and> 10000 dvd t}"
    using py_range_set [OF _ f(1) f(2)] r by simp
  have c: "sorted_wrt (<) ticks"
    using py_range_increasing [OF _ f(1) f(2)] r by simp
  have d: "Max (set totals) = 5000 \<longrightarrow> ymax = 60000"
    by (simp add: ymax_def)
  have e: "\<forall>df. monthly_totals df = totals \<longrightarrow> make_monthly_stacked df = Inr ax"
    using a by (simp add: make_monthly_stacked_def)
  from a b c d e f(3) show ?thesis
    unfolding Let_def ymax_def [symmetric] ticks_def [symmetric] ax_def [symmetric] by simp
qed

theorem stacked_axis_spec_witness:
  "stacked_axis [1200, 5000]
   = Inr \<lparr> axis_range = (0, 60000),
           axis_tickvals = [0, 10000, 20000, 30000, 40000, 50000, 60000] \<rparr>
   \<and> make_monthly_stacked
       [(''Apr 2022'', ''Other'', 3000), (''Mar 2022'', ''Other'', 1200),
        (''Apr 2022'', ''Sensors'', 2000), (''Apr 2031'', ''Other'', 99000)]
     = Inr \<lparr> axis_range = (0, 60000),
             axis_tickvals = [0, 10000, 20000, 30000, 40000, 50000, 60000] \<rparr>"
proof -
  have "map (\<lambda>k. 10000 * int k) [0..<7] = [0, 10000, 20000, 30000, 40000, 50000, 60000]"
    by (simp add: upt7)
  then show ?thesis
    using stacked_axis_spec [of "[1200, 5000]"] monthly_totals_example
    by (simp add: Let_def del: upt_Suc)
qed

text \<open>
  C3, as stated, says that a largest total of 42000 gives the maximum 50000 and the ticks
  0, 10000, ..., 50000. The floor of 60000 applies to it as to every other value.
\<close>

theorem stacked_axis_42000_not_50000:
  "stacked_axis [42000]
   \<noteq> Inr \<lparr> axis_range = (0, 50000),
             axis_tickvals = [0, 10000, 20000, 30000, 40000, 50000] \<rparr>"
  using stacked_axis_value [of "[42000]"] by simp

text \<open>
  C3, amended. For a largest per-period total of 42000 the rounded value is 50000, and the
  axis maximum is the floor 60000 with the ticks 0, 10000, ..., 60000.
\<close>

theorem stacked_axis_42000:
  assumes "totals \<noteq> []" and "Max (set totals) = 42000"
  shows "stacked_axis totals
         = Inr \<lparr> axis_range = (0, 60000),
                 axis_tickvals = [0, 10000, 20000, 30000, 40000, 50000, 60000] \<rparr>
         \<and> \<lceil>Max (set totals) / 10000\<rceil> * 10000 = 50000"
proof -
  have "py_range 0 (60000 + 1) 10000 = map (\<lambda>k. 0 + 10000 * int k) [0..<Suc 6]"
    using py_range_multiples [of 10000 0 60000] by simp
  then have "py_range 0 60001 10000 = [0, 10000, 20000, 30000, 40000, 50000, 60000]"
    using upt7 by simp
  then show ?thesis
    using stacked_axis_value [OF assms(1)] assms(2) by simp
qed

theorem stacked_axis_42000_witness:
  "stacked_axis [30000, 42000]
   = Inr \<lparr> axis_range = (0, 60000),
           axis_tickvals = [0, 10000, 20000, 30000, 40000, 50000, 60000] \<rparr>"
  using stacked_axis_42000 [of "[30000, 42000]"] by simp

subsection \<open>The ROI chart: y axis and forecast trace\<close>

lemma py_max3_Some:
  "py_max3 (Some a) b (Some c)
   = Some (case b of None \<Rightarrow> max a c | Some b' \<Rightarrow> max (max a b') c)"
  unfolding py_max3_def Let_def by (cases b) (auto simp: max_def)

lemma roi_axis_value:
  assumes "roi_vals \<noteq> []" and "v \<in> set roi_vals"
  shows "roi_axis roi_vals fcst_vals v
         = (let d = (if fcst_vals = [] then Max (set roi_vals)
                     else max (Max (set roi_vals)) (Max (set fcst_vals)));
                ymax = (if d \<le> 40000 then 40000 else \<lceil>d / 5000\<rceil> * 5000)
            in Inr \<lparr> axis_range = (10000, ymax),
                     axis_tickvals = py_range 10000 (ymax + 1) 5000 \<rparr>)"
proof -
  have le: "v \<le> Max (set roi_vals)"
    using assms(2) by simp
  have c: "\<And>d. py_int (np_ceil (d / 5000) * 5000) = \<lceil>d / 5000\<rceil> * 5000"
    using py_int_np_ceil [of _ 5000] by simp
  show ?thesis
  proof (cases "fcst_vals = []")
    case True
    then show ?thesis
      unfolding roi_axis_def Let_def
      using le by (simp add: series_max_Max [OF assms(1)] py_max3_Some c max_absorb1)
  next
    case False
    have "max (max (Max (set roi_vals)) (Max (set fcst_vals))) v
          = max (Max (set roi_vals)) (Max (set fcst_vals))"
      using le by (simp add: max_def)
    with False show ?thesis
      unfolding roi_axis_def Let_def
      by (simp add: series_max_Max [OF assms(1)] series_max_Max [OF False] py_max3_Some c)
  qed
qed

lemma roi_ymax_facts:
  fixes d :: real
  defines "ymax \<equiv> (if d \<le> 40000 then 40000 else \<lceil>d / 5000\<rceil> * 5000)"
  shows "10000 \<le> ymax" and "5000 dvd ymax - 10000" and "40000 \<le> ymax"
proof -
  have "40000 \<le> \<lceil>d / 5000\<rceil> * 5000" if "\<not> d \<le> 40000"
  proof -
    from that have "8 < d / 5000" by simp
    then have "8 < \<lceil>d / 5000\<rceil>" by linarith
    then show ?thesis by simp
  qed
  then show "40000 \<le> ymax" by (simp add: ymax_def)
  then show "10000 \<le> ymax" by simp
  show "5000 dvd ymax - 10000" by (simp add: ymax_def)
qed

lemma forecast_join_value:
  assumes "roi_df \<noteq> []"
  shows "forecast_join roi_df fcst_df
         = Inr (fst (last roi_df) # map fst fcst_df, snd (last roi_df) # map snd fcst_df)"
  unfolding forecast_join_def py_last_def Let_def
  using assms by (simp add: last_map)

text \<open>
  The whole function returns a figure when the ROI table is not empty and every month
  label has a word; a label without one raises \<^verbatim>\<open>IndexError\<close> at the short x labels.
\<close>

lemma make_roi_forecast_returns:
  assumes "roi_df \<noteq> []"
    and "short_labels (map fst roi_df @ map fst fcst_df) = Inr short"
  shows "\<exists>ax. roi_axis (map snd roi_df) (map snd fcst_df) (last (map snd roi_df)) = Inr ax
           \<and> make_roi_forecast roi_df fcst_df
             = Inr \<lparr> x_ticktext = short,
                     fcst_trace = (fst (last roi_df) # map fst fcst_df,
                                   snd (last roi_df) # map snd fcst_df),
                     roi_yaxis = ax \<rparr>"
proof -
  have ne: "map snd roi_df \<noteq> []" using assms(1) by simp
  then have "last (map snd roi_df) \<in> set (map snd roi_df)" by (rule last_in_set)
  from roi_axis_value [OF ne this, of "map snd fcst_df"]
  obtain ax where ax: "roi_axis (map snd roi_df) (map snd fcst_df) (last (map snd roi_df)) = Inr ax"
    by (auto simp: Let_def)
  then show ?thesis
    unfolding make_roi_forecast_def Let_def
    by (simp add: assms(2) forecast_join_value [OF assms(1)])
qed


text \<open>
  C4. For every pair of non-empty actual and forecast ROI tables, with \<open>data_max\<close> the
  largest value of both, the y-axis maximum of the ROI chart is 40000 when
  \<open>data_max \<le> 40000\<close> and \<open>\<lceil>data_max / 5000\<rceil> * 5000\<close> otherwise, the minimum is 10000, and the
  tick values are exactly the multiples of 5000 from 10000 to the maximum, in increasing
  order. A \<open>data_max\<close> of 35000 gives 40000 and one of 52000 gives 55000. Whenever
  \<open>make_roi_forecast\<close> returns a figure, this is its y axis.
\<close>

theorem roi_axis_spec:
  assumes "roi_df \<noteq> []" and "fcst_df \<noteq> []"
  shows "(let data_max = Max (set (map snd roi_df) \<union> set (map snd fcst_df));
              ymax = (if data_max \<le> 40000 then 40000 else \<lceil>data_max / 5000\<rceil> * 5000);
              ticks = map (\<lambda>k. 10000 + 5000 * int k) [0..<Suc (nat ((ymax - 10000) div 5000))];
              ax = \<lparr> axis_range = (10000, ymax), axis_tickvals = ticks \<rparr>
          in roi_axis (map snd roi_df) (map snd fcst_df) (last (map snd roi_df)) = Inr ax
             \<and> set ticks = {t. 10000 \<le> t \<and> t \<le> ymax \<and> 5000 dvd t}
             \<and> sorted_wrt (<) ticks
             \<and> (data_max = 35000 \<longrightarrow> ymax = 40000)
             \<and> (data_max = 52000 \<longrightarrow> ymax = 55000)
             \<and> (\<forall>fig. make_roi_forecast roi_df fcst_df = Inr fig \<longrightarrow> roi_yaxis fig = ax))"
proof -
  define data_max where "data_max = Max (set (map snd roi_df) \<union> set (map snd fcst_df))"
  define ymax where "ymax = (if data_max \<le> 40000 then 40000 else \<lceil>data_max / 5000\<rceil> * 5000)"
  define ticks where
    "ticks = map (\<lambda>k. 10000 + 5000 * int k) [0..<Suc (nat ((ymax - 10000) div 5000))]"
  define ax where "ax = \<lparr> axis_range = (10000, ymax), axis_tickvals = ticks \<rparr>"
  have ne: "map snd roi_df \<noteq> []" "map snd fcst_df \<noteq> []"
    using assms by simp_all
  have dm: "data_max = max (Max (set (map snd roi_df))) (Max (set (map snd fcst_df)))"
    unfolding data_max_def using ne by (intro Max_Un) simp_all
  note f = roi_ymax_facts [of data_max, folded ymax_def]
  have r: "py_range 10000 (ymax + 1) 5000 = ticks"
    using py_range_multiples [OF _ f(1) f(2)] by (simp add: ticks_def)
  have "last (map snd roi_df) \<in> set (map snd roi_df)"
    using ne(1) by (rule last_in_set)
  from roi_axis_value [OF ne(1) this, of "map snd fcst_df"]
  have "roi_axis (map snd roi_df) (map snd fcst_df) (last (map snd roi_df))
        = Inr \<lparr> axis_range = (10000, ymax),
                axis_tickvals = py_range 10000 (ymax + 1) 5000 \<rparr>"
    unfolding Let_def if_not_P [OF ne(2)] dm [symmetric] ymax_def [symmetric] .
  then have a: "roi_axis (map snd roi_df) (map snd fcst_df) (last (map snd roi_df)) = Inr ax"
    unfolding r ax_def .
  have "set ticks = {t. 10000 \<le> t \<and> t \<le> ymax \<and> 5000 dvd t - 10000}"
    using py_range_set [OF _ f(1) f(2)] r by simp
  moreover have "\<And>t::int. 5000 dvd t - 10000 \<longleftrightarrow> 5000 dvd t"
    by (rule dvd_diff_left_iff) simp
  ultimately have b: "set ticks = {t. 10000 \<le> t \<and> t \<le> ymax \<and> 5000 dvd t}"
    by simp
  have c: "sorted_wrt (<) ticks"
    using py_range_increasing [OF _ f(1) f(2)] r by simp
  have d: "data_max = 35000 \<longrightarrow> ymax = 40000" "data_max = 52000 \<longrightarrow> ymax = 55000"
    by (simp_all add: ymax_def)
  have e: "\<forall>fig. make_roi_forecast roi_df fcst_df = Inr fig \<longrightarrow> roi_yaxis fig = ax"
    unfolding make_roi_forecast_def Let_def
    by (auto simp: a split: sum.splits)
  from a b c d e show ?thesis
    unfolding Let_def data_max_def [symmetric] ymax_def [symmetric] ticks_def [symmetric]
      ax_def [symmetric]
    by simp
qed

lemma short_labels_example:
  "short_labels [''Jan 2023'', ''Mar 2023'', ''Apr 2023''] = Inr [''Jan'', ''Mar'', ''Apr'']"
  by code_simp

lemma upt10: "[0..<10] = [0, 1, 2, 3, 4, 5, 6, 7, 8, 9]"
  by code_simp

theorem roi_axis_spec_witness:
  "map_sum id roi_yaxis
     (make_roi_forecast [(''Jan 2023'', 35000), (''Mar 2023'', 12000)] [(''Apr 2023'', 21000)])
   = Inr \<lparr> axis_range = (10000, 40000),
           axis_tickvals = [10000, 15000, 20000, 25000, 30000, 35000, 40000] \<rparr>
   \<and> map_sum id roi_yaxis
     (make_roi_forecast [(''Jan 2023'', 35000), (''Mar 2023'', 12000)] [(''Apr 2023'', 52000)])
   = Inr \<lparr> axis_range = (10000, 55000),
           axis_tickvals = [10000, 15000, 20000, 25000, 30000, 35000, 40000,
                            45000, 50000, 55000] \<rparr>"
proof -
  let ?roi = "[(''Jan 2023'', 35000), (''Mar 2023'', 12000 :: real)]"
  have t7: "map (\<lambda>k. 10000 + 5000 * int k) [0..<7]
            = [10000, 15000, 20000, 25000, 30000, 35000, 40000]"
    by (simp add: upt7)
  have t10: "map (\<lambda>k. 10000 + 5000 * int k) [0..<10]
            = [10000, 15000, 20000, 25000, 30000, 35000, 40000, 45000, 50000, 55000]"
    by (simp add: upt10)
  obtain ax1 where m1: "make_roi_forecast ?roi [(''Apr 2023'', 21000)]
      = Inr \<lparr> x_ticktext = [''Jan'', ''Mar'', ''Apr''],
              fcst_trace = ([''Mar 2023'', ''Apr 2023''], [12000, 21000]), roi_yaxis = ax1 \<rparr>"
    using make_roi_forecast_returns [of ?roi "[(''Apr 2023'', 21000)]", OF _ ] short_labels_example
    by auto
  obtain ax2 where m2: "make_roi_forecast ?roi [(''Apr 2023'', 52000)]
      = Inr \<lparr> x_ticktext = [''Jan'', ''Mar'', ''Apr''],
              fcst_trace = ([''Mar 2023'', ''Apr 2023''], [12000, 52000]), roi_yaxis = ax2 \<rparr>"
    using make_roi_forecast_returns [of ?roi "[(''Apr 2023'', 52000)]", OF _ ] short_labels_example
    by auto
  have "ax1 = \<lparr> axis_range = (10000, 40000),
           axis_tickvals = [10000, 15000, 20000, 25000, 30000, 35000, 40000] \<rparr>"
    using roi_axis_spec [of ?roi "[(''Apr 2023'', 21000)]"] m1 t7
    by (simp add: Let_def del: upt_Suc)
  moreover have "ax2 = \<lparr> axis_range = (10000, 55000),
           axis_tickvals = [10000, 15000, 20000, 25000, 30000, 35000, 40000,
                            45000, 50000, 55000] \<rparr>"
    using roi_axis_spec [of ?roi "[(''Apr 2023'', 52000)]"] m2 t10
    by (simp add: Let_def del: upt_Suc)
  ultimately show ?thesis
    using m1 m2 by simp
qed

text \<open>
  C5. For every non-empty actuals table and every forecast table, the forecast trace is
  the last actual point followed by all forecast points in order: its length is the
  forecast length plus one and its first point is the last actual point. Whenever
  \<open>make_roi_forecast\<close> returns a figure, this is its forecast trace.
\<close>

theorem forecast_join_spec:
  assumes "roi_df \<noteq> []"
  shows "(let fcst_x = fst (last roi_df) # map fst fcst_df;
              fcst_y = snd (last roi_df) # map snd fcst_df
          in forecast_join roi_df fcst_df = Inr (fcst_x, fcst_y)
             \<and> zip fcst_x fcst_y = [last roi_df] @ fcst_df
             \<and> length (zip fcst_x fcst_y) = length fcst_df + 1
             \<and> hd (zip fcst_x fcst_y) = last roi_df
             \<and> (\<forall>fig. make_roi_forecast roi_df fcst_df = Inr fig
                    \<longrightarrow> fcst_trace fig = (fcst_x, fcst_y)))"
proof -
  have "\<forall>fig. make_roi_forecast roi_df fcst_df = Inr fig
          \<longrightarrow> fcst_trace fig
              = (fst (last roi_df) # map fst fcst_df, snd (last roi_df) # map snd fcst_df)"
    unfolding make_roi_forecast_def Let_def
    by (auto simp: forecast_join_value [OF assms] split: sum.splits)
  then show ?thesis
    unfolding Let_def
    by (simp add: forecast_join_value [OF assms] zip_map_fst_snd)
qed

theorem forecast_join_spec_witness:
  "forecast_join [(''Feb 2023'', 24800), (''Mar 2023'', 12000)]
       [(''Apr 2023'', 21000), (''May 2023'', 22000)]
     = Inr ([''Mar 2023'', ''Apr 2023'', ''May 2023''], [12000, 21000, 22000])
   \<and> map_sum id fcst_trace
       (make_roi_forecast [(''Feb 2023'', 24800), (''Mar 2023'', 12000)]
          [(''Apr 2023'', 21000), (''May 2023'', 22000)])
     = Inr ([''Mar 2023'', ''Apr 2023'', ''May 2023''], [12000, 21000, 22000])"
proof -
  let ?roi = "[(''Feb 2023'', 24800), (''Mar 2023'', 12000 :: real)]"
  let ?fc = "[(''Apr 2023'', 21000), (''May 2023'', 22000 :: real)]"
  have "short_labels (map fst ?roi @ map fst ?fc) = Inr [''Feb'', ''Mar'', ''Apr'', ''May'']"
    by code_simp
  from make_roi_forecast_returns [OF _ this]
  obtain fig where m: "make_roi_forecast ?roi ?fc = Inr fig"
    by auto
  then have "fcst_trace fig = ([''Mar 2023'', ''Apr 2023'', ''May 2023''], [12000, 21000, 22000])"
    using forecast_join_spec [of ?roi ?fc] by (simp add: Let_def)
  with m show ?thesis
    using forecast_join_spec [of ?roi ?fc] by (simp add: Let_def)
qed

subsection \<open>The generator and its seed\<close>

lemma month_records_returns: "\<not> isl (month_records monthly_data)"
  by code_simp

lemma main_valid_seed:
  assumes "0 \<le> seed" and "seed \<le> 2 ^ 32 - 1"
  shows "\<exists>records. month_records monthly_data = Inr records
           \<and> main seed w
             = Inr \<lparr> np_random_state = Some seed,
                     files = (files w)
                       (''procurement_kpis.json'' \<mapsto> KpiJson kpis,
                        ''savings_by_department.csv'' \<mapsto> DeptCsv savings_df,
                        ''monthly_savings_by_department.csv'' \<mapsto> MonthlyCsv records,
                        ''procurement_roi.csv'' \<mapsto> SeriesCsv (zip roi_months roi_values),
                        ''procurement_forecast.csv''
                          \<mapsto> SeriesCsv (zip forecast_months forecast_values)),
                     stdout = stdout w @ summary_lines \<rparr>"
proof -
  obtain records where r: "month_records monthly_data = Inr records"
    using month_records_returns by (cases "month_records monthly_data") auto
  have "np_random_seed seed w = Inr (w\<lparr>np_random_state := Some seed\<rparr>)"
    using assms by (simp add: np_random_seed_def)
  then show ?thesis
    unfolding main_def Let_def write_file_def
    by (simp add: r)
qed

lemma main_invalid_seed:
  assumes "seed < 0 \<or> 2 ^ 32 - 1 < seed"
  shows "main seed w = Inl ValueError"
  using assms unfolding main_def np_random_seed_def by auto

text \<open>
  C9, as stated, says that every two integer seeds give the same output tables. The seed
  42 gives the five tables; the seed \<open>-1\<close> is refused by \<^verbatim>\<open>np.random.seed\<close> and the run
  ends with \<^verbatim>\<open>ValueError\<close> before any table is written.
\<close>

theorem seed_changes_outcome:
  "\<not> isl (main 42 \<lparr> np_random_state = None, files = Map.empty, stdout = [] \<rparr>)
   \<and> main (- 1) \<lparr> np_random_state = None, files = Map.empty, stdout = [] \<rparr>
       = Inl ValueError"
proof -
  have "(0::int) \<le> 42" "(42::int) \<le> 2 ^ 32 - 1" by simp_all
  from main_valid_seed [OF this]
  have "\<not> isl (main 42 \<lparr> np_random_state = None, files = Map.empty, stdout = [] \<rparr>)"
    by (metis sum.disc(2))
  then show ?thesis
    by (simp add: main_invalid_seed)
qed

text \<open>
  C9, amended. For every two seeds that \<^verbatim>\<open>np.random.seed\<close> accepts (from 0 to
  \<open>2^32 - 1\<close>), both runs of the generator from the same state return, and they leave
  the same files (KPI values, department totals, monthly records, ROI actuals and
  forecast, each the constant table of the script) and the same printed lines: the seed
  reaches the state of the random generator and nothing else.
\<close>

theorem main_seed_independent:
  assumes "0 \<le> s1" and "s1 \<le> 2 ^ 32 - 1" and "0 \<le> s2" and "s2 \<le> 2 ^ 32 - 1"
  shows "\<exists>w1 w2. main s1 w = Inr w1 \<and> main s2 w = Inr w2
           \<and> files w1 = files w2 \<and> stdout w1 = stdout w2
           \<and> files w1 ''procurement_kpis.json'' = Some (KpiJson kpis)
           \<and> files w1 ''savings_by_department.csv'' = Some (DeptCsv savings_df)
           \<and> map_option MonthlyCsv (case month_records monthly_data of
                                       Inl e \<Rightarrow> None | Inr records \<Rightarrow> Some records)
               = files w1 ''monthly_savings_by_department.csv''
           \<and> files w1 ''procurement_roi.csv'' = Some (SeriesCsv (zip roi_months roi_values))
           \<and> files w1 ''procurement_forecast.csv''
               = Some (SeriesCsv (zip forecast_months forecast_values))
           \<and> np_random_state w1 = Some s1 \<and> np_random_state w2 = Some s2"
proof -
  from main_valid_seed [OF assms(1,2), of w] obtain r1 where
    m1: "month_records monthly_data = Inr r1" and
    w1: "main s1 w = Inr \<lparr> np_random_state = Some s1,
                     files = (files w)
                       (''procurement_kpis.json'' \<mapsto> KpiJson kpis,
                        ''savings_by_department.csv'' \<mapsto> DeptCsv savings_df,
                        ''monthly_savings_by_department.csv'' \<mapsto> MonthlyCsv r1,
                        ''procurement_roi.csv'' \<mapsto> SeriesCsv (zip roi_months roi_values),
                        ''procurement_forecast.csv''
                          \<mapsto> SeriesCsv (zip forecast_months forecast_values)),
                     stdout = stdout w @ summary_lines \<rparr>"
    by blast
  from main_valid_seed [OF assms(3,4), of w] m1 have
    w2: "main s2 w = Inr \<lparr> np_random_state = Some s2,
                     files = (files w)
                       (''procurement_kpis.json'' \<mapsto> KpiJson kpis,
                        ''savings_by_department.csv'' \<mapsto> DeptCsv savings_df,
                        ''monthly_savings_by_department.csv'' \<mapsto> MonthlyCsv r1,
                        ''procurement_roi.csv'' \<mapsto> SeriesCsv (zip roi_months roi_values),
                        ''procurement_forecast.csv''
                          \<mapsto> SeriesCsv (zip forecast_months forecast_values)),
                     stdout = stdout w @ summary_lines \<rparr>"
    by auto
  show ?thesis
    unfolding w1 w2 by (simp add: m1)
qed

theorem main_seed_independent_witness:
  "map_sum id files (main 42 \<lparr> np_random_state = None, files = Map.empty, stdout = [] \<rparr>)
   = map_sum id files (main 7 \<lparr> np_random_state = None, files = Map.empty, stdout = [] \<rparr>)
   \<and> \<not> isl (main 42 \<lparr> np_random_state = None, files = Map.empty, stdout = [] \<rparr>)"
  using main_seed_independent
    [of 42 7 "\<lparr> np_random_state = None, files = Map.empty, stdout = [] \<rparr>"]
  by auto

end
